theory Spec2Isabelle
  imports Complex_Main
begin

section \<open>Python exceptions\<close>

text \<open>
  Every \<^verbatim>\<open>raise\<close>, failed \<^verbatim>\<open>assert\<close> and failing built-in of the modelled code is a
  value of this type, carried in the left summand of the result.
\<close>

datatype exn =
    AssertionError string
  | ValueError string
  | TypeError string
  | ZeroDivisionError string

section \<open>ScanImageImagingInterface\<close>

text \<open>
  \<^verbatim>\<open>src/neuroconv/datainterfaces/ophys/scanimage/scanimageimaginginterface.py\<close>,
  \<^verbatim>\<open>ScanImageImagingInterface.__init__\<close>:

  \<^verbatim>\<open>
  self.image_metadata = extract_extra_metadata(file_path=file_path)

  if "state.acq.frameRate" in self.image_metadata:
      sampling_frequency = float(self.image_metadata["state.acq.frameRate"])
  elif "SI.hRoiManager.scanFrameRate" in self.image_metadata:
      sampling_frequency = float(self.image_metadata["SI.hRoiManager.scanFrameRate"])
  else:
      assert_msg = (
          "sampling frequency not found in image metadata, "
          "input the frequency using the argument `fallback_sampling_frequency`"
      )
      assert fallback_sampling_frequency is not None, assert_msg
      sampling_frequency = fallback_sampling_frequency

  super().__init__(file_path=file_path, sampling_frequency=sampling_frequency, verbose=verbose)
  \<close>

  The image metadata is a dict from strings to strings, here a map. It is read from the
  Tiff file by an external reader; the model takes the dict that
  \<^verbatim>\<open>extract_extra_metadata\<close> returned as its input. The base class is not part of the
  modelled sources: the constructed object is the record of the metadata and of the
  keyword arguments handed to the base class.

  Python's \<^verbatim>\<open>float(s)\<close> on a string either yields a float or raises ValueError. The
  float type is a type parameter \<open>'f\<close> and the conversion a parameter
  \<open>float :: string \<Rightarrow> 'f option\<close>, with \<open>None\<close> for the strings that
  \<^verbatim>\<open>float\<close> rejects.
\<close>

type_synonym image_metadata_dict = "string \<rightharpoonup> string"

record 'f ScanImageImagingInterface =
  image_metadata :: image_metadata_dict
  sampling_frequency :: 'f
  verbose :: bool

definition assert_msg :: string where
  "assert_msg =
     ''sampling frequency not found in image metadata, '' @
     ''input the frequency using the argument `fallback_sampling_frequency`''"

definition py_float :: "(string \<Rightarrow> 'f option) \<Rightarrow> string \<Rightarrow> exn + 'f" where
  "py_float float s =
     (case float s of
        None \<Rightarrow> Inl (ValueError ''could not convert string to float'')
      | Some x \<Rightarrow> Inr x)"

definition ScanImageImagingInterface_init ::
  "(string \<Rightarrow> 'f option) \<Rightarrow> image_metadata_dict \<Rightarrow> 'f option \<Rightarrow> bool
     \<Rightarrow> exn + 'f ScanImageImagingInterface"
where
  "ScanImageImagingInterface_init float metadata fallback_sampling_frequency verb =
     (let resolved =
        (case metadata ''state.acq.frameRate'' of
           Some v \<Rightarrow> py_float float v
         | None \<Rightarrow>
             (case metadata ''SI.hRoiManager.scanFrameRate'' of
                Some v \<Rightarrow> py_float float v
              | None \<Rightarrow>
                  (case fallback_sampling_frequency of
                     None \<Rightarrow> Inl (AssertionError assert_msg)
                   | Some f \<Rightarrow> Inr f)))
      in case resolved of
           Inl e \<Rightarrow> Inl e
         | Inr sf \<Rightarrow>
             Inr \<lparr>image_metadata = metadata, sampling_frequency = sf, verbose = verb\<rparr>)"

text \<open>The frequency a constructor call resolved, or the exception it raised.\<close>

definition resolved_frequency :: "exn + 'f ScanImageImagingInterface \<Rightarrow> exn + 'f" where
  "resolved_frequency r = map_sum id sampling_frequency r"

text \<open>A float conversion for concrete runs: it knows two frame rates.\<close>

definition demo_float :: "string \<Rightarrow> rat option" where
  "demo_float s =
     (if s = ''30.0'' then Some 30 else if s = ''15.5'' then Some (31 / 2) else None)"

section \<open>Python numbers and their text\<close>

text \<open>
  A Python number is an \<^verbatim>\<open>int\<close> or a \<^verbatim>\<open>float\<close>. What the modelled code depends
  on is which of the two a value is: \<^verbatim>\<open>range\<close> and array shapes accept an
  \<^verbatim>\<open>int\<close> and raise TypeError on a \<^verbatim>\<open>float\<close>. The value of a float is kept as a
  real number; no theorem below depends on rounding.
\<close>

datatype pynum = PyInt int | PyFloat real

fun py_real :: "pynum \<Rightarrow> real" where
  "py_real (PyInt i) = of_int i"
| "py_real (PyFloat x) = x"

text \<open>\<^verbatim>\<open>a * b\<close>, \<^verbatim>\<open>a + b\<close>, \<^verbatim>\<open>a - b\<close>: an int when both operands are ints, a float otherwise.\<close>

fun py_mul :: "pynum \<Rightarrow> pynum \<Rightarrow> pynum" where
  "py_mul (PyInt a) (PyInt b) = PyInt (a * b)"
| "py_mul (PyInt a) (PyFloat y) = PyFloat (of_int a * y)"
| "py_mul (PyFloat x) b = PyFloat (x * py_real b)"

fun py_add :: "pynum \<Rightarrow> pynum \<Rightarrow> pynum" where
  "py_add (PyInt a) (PyInt b) = PyInt (a + b)"
| "py_add (PyInt a) (PyFloat y) = PyFloat (of_int a + y)"
| "py_add (PyFloat x) b = PyFloat (x + py_real b)"

fun py_sub :: "pynum \<Rightarrow> pynum \<Rightarrow> pynum" where
  "py_sub (PyInt a) (PyInt b) = PyInt (a - b)"
| "py_sub (PyInt a) (PyFloat y) = PyFloat (of_int a - y)"
| "py_sub (PyFloat x) b = PyFloat (x - py_real b)"

text \<open>\<^verbatim>\<open>a / b\<close>: always a float; ZeroDivisionError on a zero divisor.\<close>

definition py_truediv :: "pynum \<Rightarrow> pynum \<Rightarrow> exn + pynum" where
  "py_truediv a b =
     (if py_real b = 0 then Inl (ZeroDivisionError ''division by zero'')
      else Inr (PyFloat (py_real a / py_real b)))"

text \<open>\<^verbatim>\<open>np.ceil(x)\<close> of a scalar: a numpy float, also for an int argument.\<close>

definition np_ceil :: "pynum \<Rightarrow> pynum" where
  "np_ceil x = PyFloat (of_int \<lceil>py_real x\<rceil>)"

text \<open>\<^verbatim>\<open>range(n)\<close>, as the list a comprehension runs over.\<close>

definition py_range :: "pynum \<Rightarrow> exn + nat list" where
  "py_range n =
     (case n of
        PyInt i \<Rightarrow> Inr [0..<nat i]
      | PyFloat x \<Rightarrow> Inl (TypeError ''float object cannot be interpreted as an integer''))"

text \<open>\<^verbatim>\<open>str(n)\<close> of an int, which is also how an f-string and a tuple print it.\<close>

definition digit_char :: "nat \<Rightarrow> char" where
  "digit_char d = ''0123456789'' ! d"

function str_nat :: "nat \<Rightarrow> string" where
  "str_nat n =
     (if n < 10 then [digit_char n] else str_nat (n div 10) @ [digit_char (n mod 10)])"
  by pat_completeness auto
termination
  by (relation "measure id") auto

declare str_nat.simps [simp del]

definition str_int :: "int \<Rightarrow> string" where
  "str_int i = (if i < 0 then ''-'' @ str_nat (nat (- i)) else str_nat (nat i))"

section \<open>MockSpikeGLXNIDQInterface\<close>

text \<open>
  \<^verbatim>\<open>src/neuroconv/tools/testing/mock_interfaces.py\<close>,
  \<^verbatim>\<open>MockSpikeGLXNIDQInterface.__init__(signal_duration=7.0, ttl_times=None, ttl_duration=1.0)\<close>:

  \<^verbatim>\<open>
  if ttl_times is None:
      number_of_periods = np.ceil((signal_duration - ttl_duration) / (ttl_duration * 2))
      default_periodic_ttl_times = [ttl_duration * (1 + period) for period in range(number_of_periods)]
      ttl_times = [[ttl_time + 0.1 * channel for ttl_time in default_periodic_ttl_times] for channel in range(8)]
  number_of_channels = len(ttl_times)
  channel_ids = [f"nidq#XA{channel_index}" for channel_index in range(number_of_channels)]

  sampling_frequency = 25_000.0  # NIDQ sampling rate
  number_of_frames = signal_duration * sampling_frequency
  traces = np.empty(shape=(number_of_frames, number_of_channels), dtype="int16")
  for channel_index in range(number_of_channels):
      traces[:, channel_index] = generate_mock_ttl_signal(
          signal_duration=signal_duration, ttl_times=ttl_times, ttl_duration=ttl_duration
      )

  self.recording_extractor = NumpyRecording(
      traces_list=traces, sampling_frequency=sampling_frequency, channel_ids=channel_ids
  )
  self.recording_extractor.set_channel_gains(gains=[61.03515625] * self.recording_extractor.get_num_channels())
  self.meta = {"acqMnMaXaDw": "0,0,8,1", "fileCreateTime": "2020-11-03T10:35:10", "niDev1ProductName": "PCI-6259"}
  \<close>
\<close>

text \<open>
  \<^verbatim>\<open>np.empty(shape=..., dtype="int16")\<close>: every entry of the shape must be an int and
  must not be negative; a float entry raises TypeError. The new array is two-dimensional
  here: a number of frames, and one column per channel, each not yet written.
\<close>

record 'a ndarray =
  number_of_rows :: nat
  columns :: "'a list option list"

definition np_empty :: "pynum \<Rightarrow> pynum \<Rightarrow> exn + 'a ndarray" where
  "np_empty rows cols =
     (case (rows, cols) of
        (PyInt r, PyInt c) \<Rightarrow>
          (if r < 0 \<or> c < 0 then Inl (ValueError ''negative dimensions are not allowed'')
           else Inr \<lparr>number_of_rows = nat r, columns = replicate (nat c) None\<rparr>)
      | _ \<Rightarrow> Inl (TypeError ''float object cannot be interpreted as an integer''))"

text \<open>
  \<^verbatim>\<open>traces[:, channel_index] = signal\<close>: the signal must have one value per row, or a
  single value that is broadcast; any other length raises ValueError.
\<close>

definition set_column :: "'a ndarray \<Rightarrow> nat \<Rightarrow> 'a list \<Rightarrow> exn + 'a ndarray" where
  "set_column traces channel_index signal =
     (if length signal = number_of_rows traces then
        Inr (traces\<lparr>columns := (columns traces)[channel_index := Some signal]\<rparr>)
      else if length signal = 1 then
        Inr (traces\<lparr>columns := (columns traces)
               [channel_index := Some (replicate (number_of_rows traces) (hd signal))]\<rparr>)
      else Inl (ValueError ''could not broadcast input array''))"

text \<open>
  \<^verbatim>\<open>generate_mock_ttl_signal\<close> is imported from a module outside the modelled sources:
  it is the parameter \<open>generate\<close>, called with the signal duration, the whole
  \<^verbatim>\<open>ttl_times\<close> and the TTL duration, as the loop calls it.
\<close>

type_synonym 'a ttl_generator = "pynum \<Rightarrow> pynum list list \<Rightarrow> pynum \<Rightarrow> exn + 'a list"

fun fill_traces ::
  "'a ttl_generator \<Rightarrow> pynum \<Rightarrow> pynum list list \<Rightarrow> pynum \<Rightarrow> nat list \<Rightarrow> 'a ndarray
     \<Rightarrow> exn + 'a ndarray"
where
  "fill_traces generate signal_duration ttl_times ttl_duration [] traces = Inr traces"
| "fill_traces generate signal_duration ttl_times ttl_duration (channel_index # rest) traces =
     (case generate signal_duration ttl_times ttl_duration of
        Inl e \<Rightarrow> Inl e
      | Inr signal \<Rightarrow>
          (case set_column traces channel_index signal of
             Inl e \<Rightarrow> Inl e
           | Inr traces' \<Rightarrow>
               fill_traces generate signal_duration ttl_times ttl_duration rest traces'))"

text \<open>
  The recording extractor of the external library, as the record of what the constructor
  and \<^verbatim>\<open>set_channel_gains\<close> store in it.
\<close>

record 'a NumpyRecording =
  traces_list :: "'a ndarray"
  recording_sampling_frequency :: real
  channel_ids :: "string list"
  channel_gains :: "real list option"

definition get_num_channels :: "'a NumpyRecording \<Rightarrow> nat" where
  "get_num_channels recording = length (channel_ids recording)"

definition set_channel_gains :: "real list \<Rightarrow> 'a NumpyRecording \<Rightarrow> 'a NumpyRecording" where
  "set_channel_gains gains recording = recording\<lparr>channel_gains := Some gains\<rparr>"

record 'a MockSpikeGLXNIDQInterface =
  recording_extractor :: "'a NumpyRecording"
  meta :: "(string \<times> string) list"

text \<open>The \<^verbatim>\<open>ttl_times is None\<close> branch: the default TTL times of eight channels.\<close>

definition default_ttl_times :: "pynum \<Rightarrow> pynum \<Rightarrow> exn + pynum list list" where
  "default_ttl_times signal_duration ttl_duration =
     (case py_truediv (py_sub signal_duration ttl_duration) (py_mul ttl_duration (PyInt 2)) of
        Inl e \<Rightarrow> Inl e
      | Inr ratio \<Rightarrow>
          (let number_of_periods = np_ceil ratio in
           case py_range number_of_periods of
             Inl e \<Rightarrow> Inl e
           | Inr periods \<Rightarrow>
               (let default_periodic_ttl_times =
                      map (\<lambda>period. py_mul ttl_duration (py_add (PyInt 1) (PyInt (int period))))
                        periods
                in Inr (map (\<lambda>channel.
                              map (\<lambda>ttl_time.
                                     py_add ttl_time
                                       (py_mul (PyFloat (1 / 10)) (PyInt (int channel))))
                                default_periodic_ttl_times)
                          [0..<8]))))"

definition nidq_channel_ids :: "nat \<Rightarrow> string list" where
  "nidq_channel_ids number_of_channels =
     map (\<lambda>channel_index. ''nidq#XA'' @ str_nat channel_index) [0..<number_of_channels]"

definition MockSpikeGLXNIDQInterface_init ::
  "'a ttl_generator \<Rightarrow> pynum \<Rightarrow> pynum list list option \<Rightarrow> pynum
     \<Rightarrow> exn + 'a MockSpikeGLXNIDQInterface"
where
  "MockSpikeGLXNIDQInterface_init generate signal_duration ttl_times_arg ttl_duration =
     (case (case ttl_times_arg of
              None \<Rightarrow> default_ttl_times signal_duration ttl_duration
            | Some given \<Rightarrow> Inr given) of
        Inl e \<Rightarrow> Inl e
      | Inr ttl_times \<Rightarrow>
          (let number_of_channels = length ttl_times;
               ids = nidq_channel_ids number_of_channels;
               sampling_freq = PyFloat 25000;
               number_of_frames = py_mul signal_duration sampling_freq
           in case np_empty number_of_frames (PyInt (int number_of_channels)) of
                Inl e \<Rightarrow> Inl e
              | Inr traces \<Rightarrow>
                  (case fill_traces generate signal_duration ttl_times ttl_duration
                          [0..<number_of_channels] traces of
                     Inl e \<Rightarrow> Inl e
                   | Inr filled \<Rightarrow>
                       (let recording =
                              \<lparr>traces_list = filled,
                               recording_sampling_frequency = py_real sampling_freq,
                               channel_ids = ids,
                               channel_gains = None\<rparr>;
                            recording' =
                              set_channel_gains
                                (replicate (get_num_channels recording) 61.03515625) recording
                        in Inr \<lparr>recording_extractor = recording',
                                meta = [(''acqMnMaXaDw'', ''0,0,8,1''),
                                        (''fileCreateTime'', ''2020-11-03T10:35:10''),
                                        (''niDev1ProductName'', ''PCI-6259'')]\<rparr>))))"

section \<open>Backend configuration report\<close>

text \<open>
  \<^verbatim>\<open>tests/test_minimal/test_tools/test_backend_and_dataset_configuration/test_zarr_backend_configuration_model.py\<close>,
  \<^verbatim>\<open>test_zarr_backend_configuration_print\<close>:

  \<^verbatim>\<open>
  zarr_backend_configuration = mock_ZarrBackendConfiguration()

  with patch("sys.stdout", new=StringIO()) as out:
      print(zarr_backend_configuration)

  expected_print = """ ... """
  assert out.getvalue() == expected_print
  \<close>

  The test is the only modelled source of this part. The configuration classes, the fixture
  \<^verbatim>\<open>mock_ZarrBackendConfiguration\<close> and the code that renders a configuration are
  imported from modules that are not among the modelled sources; they are modelled from
  the specification, and each such definition says so. The string \<open>expected_print\<close> is
  the test's own.
\<close>

text \<open>
  Modelled from the spec: the backend enumeration of the planner's contract
  (\<^verbatim>\<open>backend: enum{HDF5, Zarr}\<close>); its declaration is not among the sources.
\<close>

datatype Backend = HDF5 | Zarr

text \<open>
  Modelled from the spec: the DatasetDescriptor of the data model (path of the dataset
  within the container, full shape, element dtype, optional existing chunking hint); its
  class is not among the sources.
\<close>

record DatasetDescriptor =
  path :: string
  maxshape :: "int list"
  dtype :: string
  chunking_hint :: "int list option"

text \<open>
  Modelled from the spec: the DatasetConfiguration of the data model, derived from a
  DatasetDescriptor (chunk shape, buffer shape, compression method, ordered filter
  methods); its class is not among the sources.
\<close>

record DatasetConfiguration = DatasetDescriptor +
  chunk_shape :: "int list"
  buffer_shape :: "int list"
  compression_method :: string
  filter_methods :: "string list"

text \<open>
  Modelled from the spec: a plan, the backend with the dataset configurations in the order
  the datasets were provided; the class the test prints is not among the sources.
\<close>

record BackendConfiguration =
  backend :: Backend
  dataset_configurations :: "DatasetConfiguration list"

text \<open>Python's \<^verbatim>\<open>sep.join(xs)\<close>.\<close>

fun join :: "string \<Rightarrow> string list \<Rightarrow> string" where
  "join sep [] = []"
| "join sep [x] = x"
| "join sep (x # y # ys) = x @ sep @ join sep (y # ys)"

text \<open>
  How Python prints a tuple of ints, a string without quotes or escapes in it, and a
  list of such strings: \<^verbatim>\<open>(1800000, 384)\<close>, \<^verbatim>\<open>(5,)\<close>, \<^verbatim>\<open>()\<close>, \<^verbatim>\<open>'delta'\<close>,
  \<^verbatim>\<open>['delta']\<close>.
\<close>

definition repr_int_tuple :: "int list \<Rightarrow> string" where
  "repr_int_tuple xs =
     (case xs of
        [] \<Rightarrow> ''()''
      | [x] \<Rightarrow> ''('' @ str_int x @ '',)''
      | _ \<Rightarrow> ''('' @ join '', '' (map str_int xs) @ '')'')"

definition repr_str :: "string \<Rightarrow> string" where
  "repr_str s = [CHR 0x27] @ s @ [CHR 0x27]"

definition repr_str_list :: "string list \<Rightarrow> string" where
  "repr_str_list xs = ''['' @ join '', '' (map repr_str xs) @ '']''"

text \<open>
  Modelled from the spec: the name of the backend in the header line of the report; the
  rendering code is not among the sources, the test's template gives \<^verbatim>\<open>zarr\<close>.
\<close>

definition backend_name :: "Backend \<Rightarrow> string" where
  "backend_name b = (case b of HDF5 \<Rightarrow> ''hdf5'' | Zarr \<Rightarrow> ''zarr'')"

text \<open>
  Modelled from the spec: the underline of the header and of each dataset section, as
  long as the line above it; the rendering code is not among the sources.
\<close>

definition underline :: "string \<Rightarrow> string" where
  "underline s = replicate (length s) (CHR ''-'')"

text \<open>
  Modelled from the spec: the header line of the report, worded as in the test's
  template; the rendering code is not among the sources.
\<close>

definition header_line :: "Backend \<Rightarrow> string" where
  "header_line b =
     ''Configurable datasets identified using the '' @ backend_name b @ '' backend''"

text \<open>
  Modelled from the spec: the section of one dataset, line by line: a blank line, the
  path, its underline, then the fields of the descriptor and of the configuration; the
  rendering code is not among the sources.
\<close>

definition dataset_section :: "DatasetConfiguration \<Rightarrow> string list" where
  "dataset_section c =
     ['''',
      path c,
      underline (path c),
      ''  maxshape: '' @ repr_int_tuple (maxshape c),
      ''  dtype: '' @ dtype c,
      '''',
      ''  chunk_shape: '' @ repr_int_tuple (chunk_shape c),
      ''  buffer_shape: '' @ repr_int_tuple (buffer_shape c),
      ''  compression_method: '' @ compression_method c,
      ''  filter_methods: '' @ repr_str_list (filter_methods c)]"

text \<open>
  Modelled from the spec: the lines of the whole report: a blank line, the header, its
  underline, then one section per dataset in the order of the plan; the rendering code is
  not among the sources.
\<close>

definition report_lines :: "BackendConfiguration \<Rightarrow> string list" where
  "report_lines cfg =
     ['''', header_line (backend cfg), underline (header_line (backend cfg))]
     @ concat (map dataset_section (dataset_configurations cfg))"

text \<open>
  Modelled from the spec: the rendering of a plan, \<^verbatim>\<open>str(configuration)\<close>: the lines of
  the report joined by newlines; the method is not among the sources.
\<close>

definition str_BackendConfiguration :: "BackendConfiguration \<Rightarrow> string" where
  "str_BackendConfiguration cfg = join [CHR 0x0A] (report_lines cfg)"

text \<open>What \<^verbatim>\<open>print(s)\<close> writes to the standard output: the text and a newline.\<close>

definition py_print :: "string \<Rightarrow> string" where
  "py_print s = s @ [CHR 0x0A]"

text \<open>
  Modelled from the spec: the fixture \<^verbatim>\<open>mock_ZarrBackendConfiguration()\<close> that the test
  prints, which is not among the sources: the two datasets of the exact-match scenario
  with the chunk shapes, buffer shapes, compression method and filter methods the
  specification lists for them.
\<close>

definition mock_ZarrBackendConfiguration :: BackendConfiguration where
  "mock_ZarrBackendConfiguration =
     \<lparr>backend = Zarr,
      dataset_configurations =
        [\<lparr>path = ''acquisition/TestElectricalSeriesAP/data'',
          maxshape = [1800000, 384],
          dtype = ''int16'',
          chunking_hint = None,
          chunk_shape = [78125, 64],
          buffer_shape = [1250000, 384],
          compression_method = ''gzip'',
          filter_methods = [''delta'']\<rparr>,
         \<lparr>path = ''acquisition/TestElectricalSeriesLF/data'',
          maxshape = [75000, 384],
          dtype = ''int16'',
          chunking_hint = None,
          chunk_shape = [37500, 128],
          buffer_shape = [75000, 384],
          compression_method = ''gzip'',
          filter_methods = [''delta'']\<rparr>]\<rparr>"

text \<open>
  The test's \<^verbatim>\<open>expected_print\<close>, a triple-quoted string: each line of the literal with
  the newline that ends it, the first line being empty.
\<close>

definition expected_print :: string where
  "expected_print =
     concat (map (\<lambda>l. l @ [CHR 0x0A])
       ['''',
        ''Configurable datasets identified using the zarr backend'',
        ''-------------------------------------------------------'',
        '''',
        ''acquisition/TestElectricalSeriesAP/data'',
        ''---------------------------------------'',
        ''  maxshape: (1800000, 384)'',
        ''  dtype: int16'',
        '''',
        ''  chunk_shape: (78125, 64)'',
        ''  buffer_shape: (1250000, 384)'',
        ''  compression_method: gzip'',
        ''  filter_methods: ['' @ [CHR 0x27] @ ''delta'' @ [CHR 0x27] @ '']'',
        '''',
        ''acquisition/TestElectricalSeriesLF/data'',
        ''---------------------------------------'',
        ''  maxshape: (75000, 384)'',
        ''  dtype: int16'',
        '''',
        ''  chunk_shape: (37500, 128)'',
        ''  buffer_shape: (75000, 384)'',
        ''  compression_method: gzip'',
        ''  filter_methods: ['' @ [CHR 0x27] @ ''delta'' @ [CHR 0x27] @ '']''])"

section \<open>Theorems: ScanImageImagingInterface\<close>

text \<open>
  C9. Constructing a ScanImageImagingInterface resolves the sampling frequency from the
  metadata key \<^verbatim>\<open>state.acq.frameRate\<close> when it is present (whatever else is given), else
  from \<^verbatim>\<open>SI.hRoiManager.scanFrameRate\<close> when that one is present, and else from
  \<^verbatim>\<open>fallback_sampling_frequency\<close>. The constructor raises the AssertionError about the
  missing frequency if and only if neither key is in the image metadata and the fallback is
  None. (A key whose value \<^verbatim>\<open>float\<close> rejects raises ValueError, a different
  exception.)
\<close>

theorem ScanImageImagingInterface_sampling_frequency:
  "(metadata ''state.acq.frameRate'' = Some v \<longrightarrow>
      resolved_frequency (ScanImageImagingInterface_init float metadata fallback verb)
        = py_float float v)
   \<and> (metadata ''state.acq.frameRate'' = None \<longrightarrow>
        metadata ''SI.hRoiManager.scanFrameRate'' = Some w \<longrightarrow>
      resolved_frequency (ScanImageImagingInterface_init float metadata fallback verb)
        = py_float float w)
   \<and> (metadata ''state.acq.frameRate'' = None \<longrightarrow>
        metadata ''SI.hRoiManager.scanFrameRate'' = None \<longrightarrow>
        fallback = Some f \<longrightarrow>
      ScanImageImagingInterface_init float metadata fallback verb
        = Inr \<lparr>image_metadata = metadata, sampling_frequency = f, verbose = verb\<rparr>)
   \<and> ((ScanImageImagingInterface_init float metadata fallback verb
          = Inl (AssertionError assert_msg))
        = (''state.acq.frameRate'' \<notin> dom metadata
           \<and> ''SI.hRoiManager.scanFrameRate'' \<notin> dom metadata
           \<and> fallback = None))"
  by (auto simp: ScanImageImagingInterface_init_def resolved_frequency_def py_float_def
           split: option.splits sum.splits)

theorem ScanImageImagingInterface_sampling_frequency_witness:
  "resolved_frequency
     (ScanImageImagingInterface_init demo_float
        [''state.acq.frameRate'' \<mapsto> ''30.0'', ''SI.hRoiManager.scanFrameRate'' \<mapsto> ''15.5'']
        (Some 7) True) = Inr 30
   \<and> resolved_frequency
     (ScanImageImagingInterface_init demo_float
        [''SI.hRoiManager.scanFrameRate'' \<mapsto> ''15.5''] (Some 7) True) = Inr (31 / 2)
   \<and> resolved_frequency
     (ScanImageImagingInterface_init demo_float [''epoch'' \<mapsto> ''[2022  8  8 16 56 7.329]'']
        (Some 7) True) = Inr 7
   \<and> ScanImageImagingInterface_init demo_float [''epoch'' \<mapsto> ''[2022  8  8 16 56 7.329]'']
        None True = Inl (AssertionError assert_msg)
   \<and> ScanImageImagingInterface_init demo_float [''state.acq.frameRate'' \<mapsto> ''fast'']
        None True \<noteq> Inl (AssertionError assert_msg)"
proof -
  let ?k1 = "''state.acq.frameRate''" and ?k2 = "''SI.hRoiManager.scanFrameRate''"
  let ?m1 = "[?k1 \<mapsto> ''30.0'', ?k2 \<mapsto> ''15.5'']"
  let ?m2 = "[?k2 \<mapsto> ''15.5'']"
  let ?m3 = "[''epoch'' \<mapsto> ''[2022  8  8 16 56 7.329]'']"
  let ?m4 = "[?k1 \<mapsto> ''fast'']"
  have a: "resolved_frequency (ScanImageImagingInterface_init demo_float ?m1 (Some 7) True)
             = Inr 30"
    using ScanImageImagingInterface_sampling_frequency
            [of ?m1 "''30.0''" demo_float "Some 7" True]
    by (simp add: py_float_def demo_float_def)
  have b: "resolved_frequency (ScanImageImagingInterface_init demo_float ?m2 (Some 7) True)
             = Inr (31 / 2)"
    using ScanImageImagingInterface_sampling_frequency
            [of ?m2 _ demo_float "Some 7" True "''15.5''"]
    by (simp add: py_float_def demo_float_def)
  have c: "resolved_frequency (ScanImageImagingInterface_init demo_float ?m3 (Some 7) True)
             = Inr 7"
    using ScanImageImagingInterface_sampling_frequency
            [of ?m3 _ demo_float "Some 7" True _ 7]
    by (simp add: resolved_frequency_def)
  have d: "ScanImageImagingInterface_init demo_float ?m3 None True
             = Inl (AssertionError assert_msg)"
    using ScanImageImagingInterface_sampling_frequency [of ?m3 _ demo_float None True]
    by (simp add: dom_def)
  have e: "ScanImageImagingInterface_init demo_float ?m4 None True
             \<noteq> Inl (AssertionError assert_msg)"
    using ScanImageImagingInterface_sampling_frequency [of ?m4 _ demo_float None True]
    by (simp add: dom_def)
  from a b c d e show ?thesis by blast
qed

section \<open>Theorems: MockSpikeGLXNIDQInterface\<close>

lemma py_mul_float: "py_mul a (PyFloat y) = PyFloat (py_real a * y)"
  by (cases a) simp_all

lemma np_empty_float_rows:
  "np_empty (PyFloat x) c = Inl (TypeError ''float object cannot be interpreted as an integer'')"
  by (simp add: np_empty_def)

lemma py_range_np_ceil:
  "py_range (np_ceil q) = Inl (TypeError ''float object cannot be interpreted as an integer'')"
  by (simp add: py_range_def np_ceil_def)

text \<open>
  C10. The claim is that, for explicitly given \<^verbatim>\<open>ttl_times\<close> of \<open>n\<close> channels, the
  constructed interface has a recording extractor with the \<open>n\<close> channel ids
  \<^verbatim>\<open>nidq#XA0\<close> .. \<^verbatim>\<open>nidq#XA{n-1}\<close>, the sampling frequency 25000.0 and the gain
  61.03515625 on every channel. The code does not get that far:
  \<^verbatim>\<open>number_of_frames = signal_duration * sampling_frequency\<close> is a float whatever the
  signal duration is, since \<^verbatim>\<open>sampling_frequency\<close> is the float 25000.0, and
  \<^verbatim>\<open>np.empty\<close> raises TypeError on a float in its shape. So for every signal duration,
  every explicit \<^verbatim>\<open>ttl_times\<close> and every TTL duration the constructor raises TypeError
  and no interface is constructed; in particular for the default signal duration 7.0 with
  \<^verbatim>\<open>ttl_times=[[1.0, 3.0]]\<close>.
\<close>

theorem MockSpikeGLXNIDQInterface_init_raises_TypeError:
  "MockSpikeGLXNIDQInterface_init generate signal_duration (Some ttl_times) ttl_duration
     = Inl (TypeError ''float object cannot be interpreted as an integer'')
   \<and> MockSpikeGLXNIDQInterface_init generate (PyFloat 7) (Some [[PyFloat 1, PyFloat 3]])
       (PyFloat 1)
     = Inl (TypeError ''float object cannot be interpreted as an integer'')"
  by (simp add: MockSpikeGLXNIDQInterface_init_def py_mul_float np_empty_float_rows)

text \<open>
  The default branch fails as well, and earlier: \<^verbatim>\<open>np.ceil\<close> yields a float, which
  \<^verbatim>\<open>range\<close> rejects (or the division raises first, for a zero TTL duration).
\<close>

lemma MockSpikeGLXNIDQInterface_init_default_raises:
  "isl (MockSpikeGLXNIDQInterface_init generate signal_duration None ttl_duration)"
  by (simp add: MockSpikeGLXNIDQInterface_init_def default_ttl_times_def py_range_np_ceil
           split: sum.splits)

text \<open>The channel ids the constructor computes before it fails, for three channels.\<close>

lemma nidq_channel_ids_three:
  "nidq_channel_ids 3 = [''nidq#XA0'', ''nidq#XA1'', ''nidq#XA2'']"
  by (simp add: nidq_channel_ids_def str_nat.simps digit_char_def upt_conv_Cons numeral_eq_Suc)

section \<open>Theorems: backend configuration report\<close>

lemma join_lines:
  "xs \<noteq> [] \<Longrightarrow> join sep xs @ sep = concat (map (\<lambda>l. l @ sep) xs)"
  by (induction sep xs rule: join.induct) simp_all

lemma str_int_scenario:
  "str_int 1800000 = ''1800000''" "str_int 384 = ''384''" "str_int 78125 = ''78125''"
  "str_int 64 = ''64''" "str_int 1250000 = ''1250000''" "str_int 75000 = ''75000''"
  "str_int 37500 = ''37500''" "str_int 128 = ''128''"
  by (simp_all add: str_int_def str_nat.simps digit_char_def)

lemma scenario_report_lines:
  "report_lines mock_ZarrBackendConfiguration =
       ['''',
        ''Configurable datasets identified using the zarr backend'',
        ''-------------------------------------------------------'',
        '''',
        ''acquisition/TestElectricalSeriesAP/data'',
        ''---------------------------------------'',
        ''  maxshape: (1800000, 384)'',
        ''  dtype: int16'',
        '''',
        ''  chunk_shape: (78125, 64)'',
        ''  buffer_shape: (1250000, 384)'',
        ''  compression_method: gzip'',
        ''  filter_methods: ['' @ [CHR 0x27] @ ''delta'' @ [CHR 0x27] @ '']'',
        '''',
        ''acquisition/TestElectricalSeriesLF/data'',
        ''---------------------------------------'',
        ''  maxshape: (75000, 384)'',
        ''  dtype: int16'',
        '''',
        ''  chunk_shape: (37500, 128)'',
        ''  buffer_shape: (75000, 384)'',
        ''  compression_method: gzip'',
        ''  filter_methods: ['' @ [CHR 0x27] @ ''delta'' @ [CHR 0x27] @ '']'']"
  by (simp add: report_lines_def mock_ZarrBackendConfiguration_def dataset_section_def
        header_line_def backend_name_def underline_def repr_int_tuple_def repr_str_list_def
        repr_str_def str_int_scenario)

lemma scenario_print:
  "py_print (str_BackendConfiguration mock_ZarrBackendConfiguration) = expected_print"
  unfolding py_print_def str_BackendConfiguration_def expected_print_def scenario_report_lines
  by (rule join_lines) simp

text \<open>Python's \<^verbatim>\<open>join\<close> puts the separator in front of every item but the first.\<close>

lemma join_Cons: "join sep (x # xs) = x @ concat (map (\<lambda>y. sep @ y) xs)"
  by (induction xs arbitrary: x) simp_all

lemma concat_map_concat:
  "concat (map f (concat (map g cs))) = concat (map (\<lambda>c. concat (map f (g c))) cs)"
  by (induction cs) simp_all

text \<open>The decimal text of a natural number: its digits, most significant first.\<close>

lemma of_char_digit_char: "d < 10 \<Longrightarrow> of_char (digit_char d) = (48::nat) + d"
proof -
  assume "d < 10"
  then have "d \<in> {0, 1, 2, 3, 4, 5, 6, 7, 8, 9}" by auto
  then show ?thesis by (auto simp: digit_char_def)
qed

lemma digit_char_in: "d < 10 \<Longrightarrow> digit_char d \<in> set ''0123456789''"
proof -
  assume "d < 10"
  then have "d \<in> {0, 1, 2, 3, 4, 5, 6, 7, 8, 9}" by auto
  then show ?thesis by (auto simp: digit_char_def)
qed

lemma digit_char_zero: "d < 10 \<Longrightarrow> (digit_char d = CHR ''0'') = (d = 0)"
proof -
  assume "d < 10"
  then have "d \<in> {0, 1, 2, 3, 4, 5, 6, 7, 8, 9}" by auto
  then show ?thesis by (auto simp: digit_char_def)
qed

lemma str_nat_value: "foldl (\<lambda>a c. 10 * a + (of_char c - (48::nat))) 0 (str_nat n) = n"
proof (induction n rule: str_nat.induct)
  case (1 n)
  show ?case
  proof (cases "n < 10")
    case True
    then show ?thesis by (subst str_nat.simps) (simp add: of_char_digit_char)
  next
    case False
    with 1 show ?thesis
      by (subst str_nat.simps) (simp add: of_char_digit_char)
  qed
qed

lemma str_nat_digits: "set (str_nat n) \<subseteq> set ''0123456789''"
proof (induction n rule: str_nat.induct)
  case (1 n)
  show ?case
  proof (cases "n < 10")
    case True
    then show ?thesis using digit_char_in [of n] by (subst str_nat.simps) simp
  next
    case False
    with 1 show ?thesis using digit_char_in [of "n mod 10"]
      by (subst str_nat.simps) simp
  qed
qed

lemma str_nat_nonempty: "str_nat n \<noteq> []"
  by (subst str_nat.simps) simp

lemma str_nat_hd: "(hd (str_nat n) = CHR ''0'') = (n = 0)"
proof (induction n rule: str_nat.induct)
  case (1 n)
  show ?case
  proof (cases "n < 10")
    case True
    then show ?thesis by (subst str_nat.simps) (simp add: digit_char_zero)
  next
    case False
    with 1 show ?thesis
      by (subst str_nat.simps) (auto simp: str_nat_nonempty)
  qed
qed

lemma str_nat_0: "str_nat 0 = ''0''"
  by (simp add: str_nat.simps digit_char_def)

lemma str_int_of_nat: "str_int (int n) = str_nat n"
  by (simp add: str_int_def)

lemma str_int_negative: "str_int (- int (Suc n)) = CHR ''-'' # str_int (int (Suc n))"
  by (simp add: str_int_def add.commute)

text \<open>How a tuple of ints and a list of strings print, item by item.\<close>

lemma repr_int_tuple_closed:
  "repr_int_tuple [] = ''()''"
  "repr_int_tuple [x] = ''('' @ str_int x @ '',)''"
  "repr_int_tuple (x # y # ys)
     = ''('' @ str_int x @ concat (map (\<lambda>z. '', '' @ str_int z) (y # ys)) @ '')''"
  by (simp_all add: repr_int_tuple_def join_Cons comp_def del: join.simps(3))

lemma repr_str_list_closed:
  "repr_str_list [] = ''[]''"
  "repr_str_list (t # ts)
     = ''['' @ [CHR 0x27] @ t @ [CHR 0x27]
        @ concat (map (\<lambda>z. '', '' @ [CHR 0x27] @ z @ [CHR 0x27]) ts) @ '']''"
  by (simp_all add: repr_str_list_def repr_str_def join_Cons comp_def del: join.simps(3))

text \<open>The text of a whole report, for every backend and every list of datasets.\<close>

lemma str_BackendConfiguration_closed:
  "str_BackendConfiguration \<lparr>backend = b, dataset_configurations = cs\<rparr>
     = (let header = ''Configurable datasets identified using the ''
                       @ (case b of HDF5 \<Rightarrow> ''hdf5'' | Zarr \<Rightarrow> ''zarr'') @ '' backend''
        in [CHR 0x0A] @ header @ [CHR 0x0A] @ replicate (length header) (CHR ''-'')
           @ concat (map (\<lambda>c.
               [CHR 0x0A, CHR 0x0A] @ path c
               @ [CHR 0x0A] @ replicate (length (path c)) (CHR ''-'')
               @ [CHR 0x0A] @ ''  maxshape: '' @ repr_int_tuple (maxshape c)
               @ [CHR 0x0A] @ ''  dtype: '' @ dtype c
               @ [CHR 0x0A, CHR 0x0A] @ ''  chunk_shape: '' @ repr_int_tuple (chunk_shape c)
               @ [CHR 0x0A] @ ''  buffer_shape: '' @ repr_int_tuple (buffer_shape c)
               @ [CHR 0x0A] @ ''  compression_method: '' @ compression_method c
               @ [CHR 0x0A] @ ''  filter_methods: '' @ repr_str_list (filter_methods c)) cs))"
  unfolding str_BackendConfiguration_def report_lines_def
  by (simp add: join_Cons concat_map_concat dataset_section_def header_line_def
        backend_name_def underline_def Let_def del: join.simps(3))

text \<open>
  C2. Rendering a plan gives a text that is a function of the plan alone, for every
  backend and every list of datasets: a newline, the header line naming the backend, an
  underline as long as the header, and then one section per dataset in the order of the
  plan. Every section is a blank line, the path, an underline as long as the path, and
  the lines \<^verbatim>\<open>  maxshape: \<close>, \<^verbatim>\<open>  dtype: \<close>, a blank line, \<^verbatim>\<open>  chunk_shape: \<close>,
  \<^verbatim>\<open>  buffer_shape: \<close>, \<^verbatim>\<open>  compression_method: \<close> and \<^verbatim>\<open>  filter_methods: \<close>, in
  this order, each label followed by the value of that field of that dataset: a shape
  as Python prints a tuple of ints, the dtype and the compression method as they are,
  the filter methods as Python prints a list of strings. The theorem fixes the printed
  values as well: how a tuple and a list print item by item, and that an int prints as
  its decimal digits without a leading zero, with a minus sign when negative. For the
  two-dataset Zarr scenario, what \<^verbatim>\<open>print\<close> writes (the text and a newline) equals the
  test's \<^verbatim>\<open>expected_print\<close> character for character.
\<close>

theorem report_of_plan:
  "py_print (str_BackendConfiguration mock_ZarrBackendConfiguration) = expected_print
   \<and> py_print s = s @ [CHR 0x0A]
   \<and> str_BackendConfiguration \<lparr>backend = b, dataset_configurations = cs\<rparr>
       = (let header = ''Configurable datasets identified using the ''
                         @ (case b of HDF5 \<Rightarrow> ''hdf5'' | Zarr \<Rightarrow> ''zarr'') @ '' backend''
          in [CHR 0x0A] @ header @ [CHR 0x0A] @ replicate (length header) (CHR ''-'')
             @ concat (map (\<lambda>c.
                 [CHR 0x0A, CHR 0x0A] @ path c
                 @ [CHR 0x0A] @ replicate (length (path c)) (CHR ''-'')
                 @ [CHR 0x0A] @ ''  maxshape: '' @ repr_int_tuple (maxshape c)
                 @ [CHR 0x0A] @ ''  dtype: '' @ dtype c
                 @ [CHR 0x0A, CHR 0x0A] @ ''  chunk_shape: '' @ repr_int_tuple (chunk_shape c)
                 @ [CHR 0x0A] @ ''  buffer_shape: '' @ repr_int_tuple (buffer_shape c)
                 @ [CHR 0x0A] @ ''  compression_method: '' @ compression_method c
                 @ [CHR 0x0A] @ ''  filter_methods: '' @ repr_str_list (filter_methods c))
               cs))
   \<and> repr_int_tuple [] = ''()''
   \<and> repr_int_tuple [x] = ''('' @ str_int x @ '',)''
   \<and> repr_int_tuple (x # y # ys)
       = ''('' @ str_int x @ concat (map (\<lambda>z. '', '' @ str_int z) (y # ys)) @ '')''
   \<and> repr_str_list [] = ''[]''
   \<and> repr_str_list (t # ts)
       = ''['' @ [CHR 0x27] @ t @ [CHR 0x27]
          @ concat (map (\<lambda>z. '', '' @ [CHR 0x27] @ z @ [CHR 0x27]) ts) @ '']''
   \<and> foldl (\<lambda>a ch. 10 * a + (of_char ch - (48::nat))) 0 (str_int (int n)) = n
   \<and> set (str_int (int n)) \<subseteq> set ''0123456789''
   \<and> (hd (str_int (int n)) = CHR ''0'') = (n = 0)
   \<and> str_int 0 = ''0''
   \<and> str_int (- int (Suc n)) = CHR ''-'' # str_int (int (Suc n))"
proof -
  have zero: "str_int 0 = ''0''"
    using str_int_of_nat [of 0] by (simp add: str_nat_0)
  have print: "py_print s = s @ [CHR 0x0A]"
    by (simp add: py_print_def)
  note tuple = repr_int_tuple_closed(1) repr_int_tuple_closed(2) [of x]
    repr_int_tuple_closed(3) [of x y ys]
  note strs = repr_str_list_closed(1) repr_str_list_closed(2) [of t ts]
  from scenario_print print str_BackendConfiguration_closed [of b cs] tuple strs
    str_nat_value [of n] str_nat_digits [of n] str_nat_hd [of n] zero str_int_negative [of n]
  show ?thesis
    unfolding str_int_of_nat by blast
qed

end
